theory Spec2Isabelle
  imports Complex_Main "HOL-Library.Word"
begin

unbundle bit_operations_syntax

section \<open>Python values used by \<open>Car_to_Bicyclist_Failed.py\<close>\<close>

text \<open>
  A Python \<open>float\<close> is an IEEE-754 binary64. Where a float crosses the boundary of the
  program (a sensor reading handed over by the simulator, eight bytes on the socket) it is
  represented by its 64-bit pattern, \<open>double\<close>. What the program computes with is the
  value of that pattern, a \<open>pyfloat\<close>: a real number, one of the two infinities, or NaN.
  Arithmetic on finite values is exact here: rounding, overflow to infinity and the sign of
  zero are not modelled. Everything else follows Python: comparisons with NaN are false,
  division by zero raises, \<open>min\<close> and \<open>max\<close> keep their first argument unless the
  second is strictly smaller (larger), \<open>round\<close> rounds half to even and raises on NaN and
  on the infinities.
\<close>

type_synonym byte = "8 word"
type_synonym double = "64 word"

datatype pyfloat = Finite real | PlusInf | MinusInf | NaN

datatype exn =
    ValueError | OverflowError | ZeroDivisionError | IndexError | StructError
  | SocketTimeout | OSError

definition valof :: "double \<Rightarrow> pyfloat" where
  "valof w =
     (let negative = bit w 63;
          e = unat (take_bit 11 (drop_bit 52 w));
          m = unat (take_bit 52 w);
          sg = (if negative then - 1 else 1 :: real)
      in if e = 2047 then (if m = 0 then (if negative then MinusInf else PlusInf) else NaN)
         else if e = 0 then Finite (sg * real m / 2 ^ 1074)
         else if 1075 \<le> e then Finite (sg * real (2 ^ 52 + m) * 2 ^ (e - 1075))
         else Finite (sg * real (2 ^ 52 + m) / 2 ^ (1075 - e)))"

fun float_lt :: "pyfloat \<Rightarrow> pyfloat \<Rightarrow> bool" where
  "float_lt NaN _ = False"
| "float_lt _ NaN = False"
| "float_lt (Finite x) (Finite y) = (x < y)"
| "float_lt _ MinusInf = False"
| "float_lt MinusInf _ = True"
| "float_lt PlusInf _ = False"
| "float_lt (Finite x) PlusInf = True"

definition float_le :: "pyfloat \<Rightarrow> pyfloat \<Rightarrow> bool" where
  "float_le a b = (float_lt a b \<or> (a = b \<and> a \<noteq> NaN))"

definition float_gt :: "pyfloat \<Rightarrow> pyfloat \<Rightarrow> bool" where
  "float_gt a b = float_lt b a"

fun float_sub :: "pyfloat \<Rightarrow> pyfloat \<Rightarrow> pyfloat" where
  "float_sub NaN _ = NaN"
| "float_sub _ NaN = NaN"
| "float_sub (Finite x) (Finite y) = Finite (x - y)"
| "float_sub (Finite x) PlusInf = MinusInf"
| "float_sub (Finite x) MinusInf = PlusInf"
| "float_sub PlusInf PlusInf = NaN"
| "float_sub PlusInf _ = PlusInf"
| "float_sub MinusInf MinusInf = NaN"
| "float_sub MinusInf _ = MinusInf"

fun float_div :: "pyfloat \<Rightarrow> pyfloat \<Rightarrow> exn + pyfloat" where
  "float_div a (Finite y) =
     (if y = 0 then Inl ZeroDivisionError
      else case a of
        Finite x \<Rightarrow> Inr (Finite (x / y))
      | PlusInf \<Rightarrow> Inr (if 0 < y then PlusInf else MinusInf)
      | MinusInf \<Rightarrow> Inr (if 0 < y then MinusInf else PlusInf)
      | NaN \<Rightarrow> Inr NaN)"
| "float_div a NaN = Inr NaN"
| "float_div (Finite x) _ = Inr (Finite 0)"
| "float_div _ _ = Inr NaN"

definition py_min :: "pyfloat \<Rightarrow> pyfloat \<Rightarrow> pyfloat" where
  "py_min a b = (if float_lt b a then b else a)"

definition py_max :: "pyfloat \<Rightarrow> pyfloat \<Rightarrow> pyfloat" where
  "py_max a b = (if float_gt b a then b else a)"

definition round_half_even :: "real \<Rightarrow> int" where
  "round_half_even x =
     (let f = \<lfloor>x\<rfloor>; r = x - of_int f
      in if r < 1 / 2 then f else if 1 / 2 < r then f + 1
         else if even f then f else f + 1)"

fun py_round :: "pyfloat \<Rightarrow> exn + int" where
  "py_round (Finite x) = Inr (round_half_even x)"
| "py_round NaN = Inl ValueError"
| "py_round _ = Inl OverflowError"

definition py_bool :: "int \<Rightarrow> bool" where
  "py_bool i = (i \<noteq> 0)"

text \<open>Sequencing of computations that may raise: the first exception wins.\<close>

definition and_then :: "exn + 'a \<Rightarrow> ('a \<Rightarrow> exn + 'b) \<Rightarrow> exn + 'b" where
  "and_then r f = (case r of Inl e \<Rightarrow> Inl e | Inr x \<Rightarrow> f x)"

section \<open>\<open>struct.pack('d', x)\<close> and \<open>struct.unpack('d', packet)\<close>\<close>

text \<open>
  Format \<open>'d'\<close> without a byte-order prefix is the native layout of a C double: the eight
  bytes of the bit pattern, least significant byte first on the little-endian hosts the
  simulator runs on. \<open>struct.unpack\<close> raises \<open>struct.error\<close> unless it is given exactly
  eight bytes.
\<close>

fun le_bytes :: "nat \<Rightarrow> double \<Rightarrow> byte list" where
  "le_bytes 0 w = []"
| "le_bytes (Suc n) w = ucast w # le_bytes n (drop_bit 8 w)"

fun of_le_bytes :: "byte list \<Rightarrow> double" where
  "of_le_bytes [] = 0"
| "of_le_bytes (b # bs) = ucast b OR push_bit 8 (of_le_bytes bs)"

definition pack_d :: "double \<Rightarrow> byte list" where
  "pack_d x = le_bytes 8 x"

definition unpack_d :: "byte list \<Rightarrow> exn + double" where
  "unpack_d packet = (if length packet = 8 then Inr (of_le_bytes packet) else Inl StructError)"

section \<open>The socket, as seen in one tick\<close>

text \<open>
  The connection is an object of the operating system. Within one tick the program calls
  \<open>conn.sendall\<close> up to three times and \<open>conn.recv(8)\<close> up to five times; the model is
  given the result of each call, in order. \<open>None\<close> is a \<open>sendall\<close> that returned, \<open>Some e\<close>
  one that raised \<open>e\<close>; a \<open>recv\<close> returns a packet of at most eight bytes or raises
  (\<open>SocketTimeout\<close> after the 0.05 s set by \<open>settimeout\<close>, another exception for a broken
  connection). A list that has run out stands for calls that find nothing wrong to report:
  \<open>sendall\<close> returns, \<open>recv\<close> finds no data and times out.
\<close>

datatype recv_result = Bytes "byte list" | Recv_raises exn

record telemetry =
  MIO_Distance :: double
  MIO_Velocity :: double
  Ego_Velocity :: double

record sim_data =
  egoCarStop :: bool
  FCW_Activate :: bool
  Deceleration :: pyfloat
  AEB_Status :: bool
  Emergency_Brake :: bool

datatype log_line =
    Log_send | Log_send_error exn
  | Log_recv sim_data | Log_recv_error exn
  | Log_tcp_error exn | Log_collision

section \<open>\<open>calculate_ttc\<close>\<close>

definition calculate_ttc :: "pyfloat \<Rightarrow> pyfloat \<Rightarrow> exn + pyfloat" where
  "calculate_ttc distance relative_velocity =
     (if float_le relative_velocity (Finite 0) then Inr PlusInf
      else float_div distance relative_velocity)"

section \<open>\<open>send_data\<close> and \<open>receive_data\<close>\<close>

text \<open>
  \<open>sendall_keys\<close> is the \<open>for key in [...]\<close> loop of \<open>send_data\<close>: it returns the bytes
  written before the first \<open>sendall\<close> that raises, or all of them. \<open>send_data\<close> wraps the
  loop in \<open>try ... except Exception\<close>, prints, and returns normally in either case.
\<close>

fun sendall_keys :: "exn option list \<Rightarrow> byte list list \<Rightarrow> byte list \<Rightarrow> (exn + unit) \<times> byte list" where
  "sendall_keys rs [] out = (Inr (), out)"
| "sendall_keys [] (p # ps) out = sendall_keys [] ps (out @ p)"
| "sendall_keys (None # rs) (p # ps) out = sendall_keys rs ps (out @ p)"
| "sendall_keys (Some e # rs) (p # ps) out = (Inl e, out)"

definition send_data :: "exn option list \<Rightarrow> telemetry \<Rightarrow> exn + byte list \<times> log_line list" where
  "send_data conn_sendall data =
     (case sendall_keys conn_sendall
             [pack_d (MIO_Distance data), pack_d (MIO_Velocity data), pack_d (Ego_Velocity data)] []
      of (Inr _, out) \<Rightarrow> Inr (out, [Log_send])
       | (Inl e, out) \<Rightarrow> Inr (out, [Log_send_error e]))"

text \<open>
  \<open>recv_floats n\<close> is the \<open>for _ in range(5)\<close> loop of \<open>receive_data\<close> with the number
  of iterations as a parameter: one \<open>recv(8)\<close> per value, \<open>ValueError\<close> for a packet of
  fewer than eight bytes.
\<close>

fun recv_floats :: "nat \<Rightarrow> recv_result list \<Rightarrow> exn + double list" where
  "recv_floats 0 rs = Inr []"
| "recv_floats (Suc n) [] = Inl SocketTimeout"
| "recv_floats (Suc n) (Recv_raises e # rs) = Inl e"
| "recv_floats (Suc n) (Bytes packet # rs) =
     (if length packet < 8 then Inl ValueError
      else and_then (unpack_d packet) (\<lambda>x.
           and_then (recv_floats n rs) (\<lambda>xs. Inr (x # xs))))"

definition default_sim_data :: sim_data where
  "default_sim_data =
     \<lparr>egoCarStop = False, FCW_Activate = False, Deceleration = Finite 0,
      AEB_Status = False, Emergency_Brake = False\<rparr>"

definition make_sim_data :: "double list \<Rightarrow> exn + sim_data" where
  "make_sim_data data =
     (case data of
        [d0, d1, d2, d3, d4] \<Rightarrow>
          and_then (py_round (valof d0)) (\<lambda>r0.
          and_then (py_round (valof d1)) (\<lambda>r1.
          and_then (py_round (valof d3)) (\<lambda>r3.
          and_then (py_round (valof d4)) (\<lambda>r4.
            Inr \<lparr>egoCarStop = py_bool r0, FCW_Activate = py_bool r1,
                 Deceleration = valof d2,
                 AEB_Status = py_bool r3, Emergency_Brake = py_bool r4\<rparr>))))
      | _ \<Rightarrow> Inl IndexError)"

definition receive_data :: "recv_result list \<Rightarrow> exn + sim_data \<times> log_line list" where
  "receive_data conn_recv =
     (case and_then (recv_floats 5 conn_recv) make_sim_data of
        Inr sd \<Rightarrow> Inr (sd, [Log_recv sd])
      | Inl SocketTimeout \<Rightarrow> Inr (default_sim_data, [])
      | Inl e \<Rightarrow> Inr (default_sim_data, [Log_recv_error e]))"

section \<open>\<open>control_ego\<close>\<close>

record VehicleControl =
  throttle :: pyfloat
  steer :: pyfloat
  brake :: pyfloat

definition control_ego :: "real \<Rightarrow> sim_data \<Rightarrow> bool \<Rightarrow> VehicleControl" where
  "control_ego sim_time sd collision =
     (let base_throttle = Finite (5 / 10)
      in if Emergency_Brake sd \<or> egoCarStop sd \<or> collision
         then \<lparr>throttle = Finite 0, steer = Finite 0, brake = Finite 1\<rparr>
         else if 2 < sim_time
         then (let decel_factor = py_min (Finite (8 / 10)) (Deceleration sd)
               in \<lparr>throttle = py_max (Finite (6 / 10)) (float_sub base_throttle decel_factor),
                   steer = Finite 0,
                   brake = py_min (Finite (8 / 10)) decel_factor\<rparr>)
         else \<lparr>throttle = Finite 0, steer = Finite 0, brake = Finite 1\<rparr>)"

section \<open>The loop of \<open>main\<close>\<close>

text \<open>
  The variables of \<open>main\<close> that live across iterations. \<open>conn\<close> records whether
  \<open>setup_tcp_server\<close> returned a connection (\<open>conn is not None\<close>); \<open>sim_time\<close> is
  advanced by 0.05 each tick.
\<close>

record state =
  sim_time :: real
  collision :: bool
  tcp_active :: bool
  conn :: bool

definition initial_state :: "bool \<Rightarrow> state" where
  "initial_state accepted =
     \<lparr>sim_time = 0, collision = False, tcp_active = accepted, conn = accepted\<rparr>"

text \<open>What the outside world supplies to one iteration.\<close>

record tick_input =
  quit :: bool
  distance :: double
  ego_speed :: double
  cyclist_speed :: double
  sendall_results :: "exn option list"
  recv_results :: "recv_result list"

record tick_output =
  ctrl :: VehicleControl
  frame :: sim_data
  ttc :: pyfloat
  written :: "byte list"
  printed :: "log_line list"

text \<open>Lines 383 to 389: the decision made locally when the connection is not used.\<close>

definition local_aeb :: "pyfloat \<Rightarrow> pyfloat \<Rightarrow> exn + sim_data" where
  "local_aeb dis relative_velocity =
     (let sd = default_sim_data
      in if float_lt dis (Finite 15) \<and> float_gt relative_velocity (Finite 0)
         then (let sd = sd\<lparr>AEB_Status := True\<rparr>
               in if float_lt dis (Finite 8)
                  then (let sd = sd\<lparr>Emergency_Brake := True\<rparr>
                        in and_then (float_div (Finite 15) dis) (\<lambda>q.
                             Inr (sd\<lparr>Deceleration := py_min (Finite (8 / 10)) q\<rparr>)))
                  else Inr sd)
         else Inr sd)"

text \<open>Lines 369 to 380: the exchange over the connection, inside \<open>try ... except Exception\<close>.\<close>

definition tcp_exchange ::
  "tick_input \<Rightarrow> bool \<times> sim_data \<times> byte list \<times> log_line list" where
  "tcp_exchange inp =
     (case and_then
             (send_data (sendall_results inp)
                \<lparr>MIO_Distance = distance inp, MIO_Velocity = cyclist_speed inp,
                 Ego_Velocity = ego_speed inp\<rparr>)
             (\<lambda>(bytes, msgs1).
                and_then (receive_data (recv_results inp)) (\<lambda>(sd, msgs2).
                  Inr (sd, bytes, msgs1 @ msgs2)))
      of Inr (sd, bytes, msgs) \<Rightarrow> (True, sd, bytes, msgs)
       | Inl e \<Rightarrow> (False, default_sim_data, [], [Log_tcp_error e]))"

text \<open>
  One iteration of \<open>while True\<close> after the quit check, lines 355 to 396. \<open>Inl e\<close> is an
  exception that leaves the loop.
\<close>

definition step :: "state \<Rightarrow> tick_input \<Rightarrow> exn + state \<times> tick_output" where
  "step s inp =
     (let sim_time' = sim_time s + 5 / 100;
          dis = valof (distance inp);
          relative_velocity = float_sub (valof (ego_speed inp)) (valof (cyclist_speed inp))
      in and_then (calculate_ttc dis relative_velocity) (\<lambda>ttc'.
         and_then
           (if tcp_active s \<and> conn s
            then (case tcp_exchange inp of (ok, sd, bytes, msgs) \<Rightarrow>
                    Inr (tcp_active s \<and> ok, sd, bytes, msgs))
            else and_then (local_aeb dis relative_velocity) (\<lambda>sd. Inr (tcp_active s, sd, [], [])))
           (\<lambda>(tcp_active', sd, bytes, msgs).
              let c = control_ego sim_time' sd (collision s);
                  latch = float_lt dis (Finite (25 / 10)) \<and> \<not> collision s
              in Inr (\<lparr>sim_time = sim_time', collision = (if latch then True else collision s),
                       tcp_active = tcp_active', conn = conn s\<rparr>,
                      \<lparr>ctrl = c, frame = sd, ttc = ttc', written = bytes,
                       printed = msgs @ (if latch then [Log_collision] else [])\<rparr>))))"

text \<open>
  The loop: states and outputs of the iterations that complete. It ends at the first
  iteration that sees the quit event (\<open>return\<close>) or raises (the \<open>except\<close> clauses around
  the loop), or when the inputs run out.
\<close>

fun main_loop :: "state \<Rightarrow> tick_input list \<Rightarrow> (state \<times> tick_output) list" where
  "main_loop s [] = []"
| "main_loop s (inp # inps) =
     (if quit inp then []
      else case step s inp of
             Inl e \<Rightarrow> []
           | Inr (s', out) \<Rightarrow> (s', out) # main_loop s' inps)"

text \<open>The range the simulator accepts for throttle and brake.\<close>

definition in_unit_interval :: "pyfloat \<Rightarrow> bool" where
  "in_unit_interval v = (float_le (Finite 0) v \<and> float_le v (Finite 1))"


text \<open>
  What the counterpart's \<open>recv(8)\<close> calls return on a stream that holds the given bytes
  and nothing else: eight bytes at a time, fewer at the end.
\<close>

fun stream_recv :: "byte list \<Rightarrow> recv_result list" where
  "stream_recv bs = (if bs = [] then [] else Bytes (take 8 bs) # stream_recv (drop 8 bs))"

declare stream_recv.simps [simp del]

text \<open>The result of the first \<open>conn.recv(8)\<close> of a tick.\<close>

definition first_recv :: "recv_result list \<Rightarrow> recv_result" where
  "first_recv rs = (case rs of [] \<Rightarrow> Recv_raises SocketTimeout | r # _ \<Rightarrow> r)"


section \<open>Time to collision\<close>

text \<open>
  Claim C3. For every distance and relative velocity, \<open>calculate_ttc\<close> returns plus
  infinity whenever the relative velocity is at most 0, whatever the distance (also an
  infinite one or NaN), and returns the quotient of distance and relative velocity whenever
  the relative velocity is positive. The quotient is the exact one of the two values.
\<close>

theorem calculate_ttc_spec:
  "(rv \<le> 0 \<longrightarrow> calculate_ttc dv (Finite rv) = Inr PlusInf) \<and>
   (0 < rv \<longrightarrow> calculate_ttc (Finite d) (Finite rv) = Inr (Finite (d / rv)))"
  by (auto simp: calculate_ttc_def float_le_def)

theorem calculate_ttc_spec_witness:
  "calculate_ttc (Finite 6) (Finite (- 1)) = Inr PlusInf \<and>
   calculate_ttc (Finite 6) (Finite 2) = Inr (Finite 3)"
  using calculate_ttc_spec [of "- 1" "Finite 6" 6] calculate_ttc_spec [of 2 "Finite 6" 6]
  by simp

text \<open>The guard of \<open>calculate_ttc\<close> keeps the division away from zero: it never raises.\<close>

lemma calculate_ttc_total: "\<exists>v. calculate_ttc a b = Inr v"
  by (cases a; cases b) (auto simp: calculate_ttc_def float_le_def)

section \<open>The control mapper\<close>

lemma control_ego_held:
  "t \<le> 2 \<or> Emergency_Brake sd \<or> egoCarStop sd \<or> c \<Longrightarrow>
   control_ego t sd c = \<lparr>throttle = Finite 0, steer = Finite 0, brake = Finite 1\<rparr>"
  by (auto simp: control_ego_def)

lemma control_ego_driving:
  "2 < t \<Longrightarrow> \<not> Emergency_Brake sd \<Longrightarrow> \<not> egoCarStop sd \<Longrightarrow> \<not> c \<Longrightarrow>
   control_ego t sd c =
     \<lparr>throttle = py_max (Finite (6 / 10))
                   (float_sub (Finite (5 / 10)) (py_min (Finite (8 / 10)) (Deceleration sd))),
      steer = Finite 0,
      brake = py_min (Finite (8 / 10)) (py_min (Finite (8 / 10)) (Deceleration sd))\<rparr>"
  by (simp add: control_ego_def Let_def)

lemma driving_throttle_positive:
  "float_lt (Finite 0)
     (py_max (Finite (6 / 10)) (float_sub (Finite (5 / 10)) (py_min (Finite (8 / 10)) v)))"
  by (cases v) (auto simp: py_max_def py_min_def float_gt_def)

lemma driving_throttle_nonzero:
  "py_max (Finite (6 / 10)) (float_sub (Finite (5 / 10)) (py_min (Finite (8 / 10)) v)) \<noteq> Finite 0"
  by (cases v) (auto simp: py_max_def py_min_def float_gt_def)

text \<open>
  Claim C4. \<open>control_ego\<close> returns full brake (throttle 0, brake 1) if and only if the
  simulated time is within the warm-up (at most 2.0), or \<open>Emergency_Brake\<close>,
  \<open>egoCarStop\<close> or the collision flag holds; in every other case the throttle is
  strictly positive. This holds for every value of \<open>Deceleration\<close>, NaN and the
  infinities included.
\<close>

theorem control_ego_full_brake_iff:
  "((throttle (control_ego t sd c) = Finite 0 \<and> brake (control_ego t sd c) = Finite 1)
      \<longleftrightarrow> (t \<le> 2 \<or> Emergency_Brake sd \<or> egoCarStop sd \<or> c)) \<and>
   (\<not> (t \<le> 2 \<or> Emergency_Brake sd \<or> egoCarStop sd \<or> c)
      \<longrightarrow> float_lt (Finite 0) (throttle (control_ego t sd c)))"
proof (cases "t \<le> 2 \<or> Emergency_Brake sd \<or> egoCarStop sd \<or> c")
  case True
  then show ?thesis by (simp add: control_ego_held)
next
  case False
  then have "control_ego t sd c =
     \<lparr>throttle = py_max (Finite (6 / 10))
                   (float_sub (Finite (5 / 10)) (py_min (Finite (8 / 10)) (Deceleration sd))),
      steer = Finite 0,
      brake = py_min (Finite (8 / 10)) (py_min (Finite (8 / 10)) (Deceleration sd))\<rparr>"
    by (intro control_ego_driving) auto
  with False driving_throttle_positive [of "Deceleration sd"]
    driving_throttle_nonzero [of "Deceleration sd"]
  show ?thesis by simp
qed

theorem control_ego_full_brake_iff_witness:
  "\<not> ((3::real) \<le> 2 \<or> Emergency_Brake default_sim_data \<or> egoCarStop default_sim_data \<or> False) \<and>
   float_lt (Finite 0) (throttle (control_ego 3 default_sim_data False)) \<and>
   throttle (control_ego 1 default_sim_data False) = Finite 0 \<and>
   brake (control_ego 1 default_sim_data False) = Finite 1"
  using control_ego_full_brake_iff [of 3 default_sim_data False]
        control_ego_full_brake_iff [of 1 default_sim_data False]
  by (simp add: default_sim_data_def)

text \<open>
  Claim C7, as stated, fails: nothing in \<open>control_ego\<close> clamps to the unit interval. With
  \<open>Deceleration = -1.0\<close> received from the remote controller, after warm-up and with no
  full-brake condition, the throttle is 1.5 and the brake is -1.0.
\<close>

theorem control_ego_negative_deceleration:
  "throttle (control_ego 3 (default_sim_data\<lparr>Deceleration := Finite (- 1)\<rparr>) False) = Finite (3 / 2) \<and>
   brake (control_ego 3 (default_sim_data\<lparr>Deceleration := Finite (- 1)\<rparr>) False) = Finite (- 1) \<and>
   \<not> in_unit_interval (throttle (control_ego 3 (default_sim_data\<lparr>Deceleration := Finite (- 1)\<rparr>) False)) \<and>
   \<not> in_unit_interval (brake (control_ego 3 (default_sim_data\<lparr>Deceleration := Finite (- 1)\<rparr>) False))"
  by (simp add: control_ego_def default_sim_data_def py_max_def py_min_def float_gt_def
      float_le_def in_unit_interval_def)

text \<open>
  Claim C7, amended. For every tick after warm-up in which no full-brake condition holds and
  every real-valued \<open>Deceleration\<close>, the command has
  \<open>throttle = max(0.6, 0.5 - d)\<close> and \<open>brake = min(0.8, d)\<close> with
  \<open>d = min(0.8, Deceleration)\<close>; throttle and brake both lie in the unit interval
  exactly when \<open>Deceleration\<close> is not negative.
\<close>

theorem control_ego_driving_values:
  assumes "2 < t" and "\<not> Emergency_Brake sd" and "\<not> egoCarStop sd" and "\<not> c"
    and "Deceleration sd = Finite x"
  shows "throttle (control_ego t sd c) = Finite (max (6 / 10) (5 / 10 - min (8 / 10) x)) \<and>
         brake (control_ego t sd c) = Finite (min (8 / 10) (min (8 / 10) x)) \<and>
         (in_unit_interval (throttle (control_ego t sd c)) \<and>
          in_unit_interval (brake (control_ego t sd c)) \<longleftrightarrow> 0 \<le> x)"
  using assms
  by (auto simp: control_ego_driving py_max_def py_min_def float_gt_def float_le_def
      in_unit_interval_def)

theorem control_ego_driving_values_witness:
  "(2::real) < 3 \<and>
   throttle (control_ego 3 (default_sim_data\<lparr>Deceleration := Finite (3 / 10)\<rparr>) False) = Finite (6 / 10) \<and>
   brake (control_ego 3 (default_sim_data\<lparr>Deceleration := Finite (3 / 10)\<rparr>) False) = Finite (3 / 10) \<and>
   in_unit_interval (throttle (control_ego 3 (default_sim_data\<lparr>Deceleration := Finite (3 / 10)\<rparr>) False)) \<and>
   in_unit_interval (brake (control_ego 3 (default_sim_data\<lparr>Deceleration := Finite (3 / 10)\<rparr>) False))"
  using control_ego_driving_values
    [of 3 "default_sim_data\<lparr>Deceleration := Finite (3 / 10)\<rparr>" False "3 / 10"]
  by (simp add: default_sim_data_def in_unit_interval_def float_le_def)

text \<open>
  Claim C10. For every tick after warm-up in which no full-brake condition holds and the
  frame's \<open>Deceleration\<close> is at least -0.1, the throttle is exactly 0.6, whatever the
  deceleration; only the brake, \<open>min(0.8, Deceleration)\<close>, varies with it.
\<close>

theorem throttle_constant:
  assumes "2 < t" and "\<not> Emergency_Brake sd" and "\<not> egoCarStop sd" and "\<not> c"
    and "float_le (Finite (- 1 / 10)) (Deceleration sd)"
  shows "throttle (control_ego t sd c) = Finite (6 / 10) \<and>
         brake (control_ego t sd c) = py_min (Finite (8 / 10)) (Deceleration sd)"
  using assms
  by (cases "Deceleration sd")
     (auto simp: control_ego_driving py_max_def py_min_def float_gt_def float_le_def)

theorem throttle_constant_witness:
  "(2::real) < 3 \<and>
   float_le (Finite (- 1 / 10)) (Deceleration (default_sim_data\<lparr>Deceleration := Finite (7 / 10)\<rparr>)) \<and>
   throttle (control_ego 3 (default_sim_data\<lparr>Deceleration := Finite (7 / 10)\<rparr>) False) = Finite (6 / 10) \<and>
   brake (control_ego 3 (default_sim_data\<lparr>Deceleration := Finite (7 / 10)\<rparr>) False) = Finite (7 / 10)"
  using throttle_constant [of 3 "default_sim_data\<lparr>Deceleration := Finite (7 / 10)\<rparr>" False]
  by (simp add: default_sim_data_def float_le_def py_min_def)

section \<open>The telemetry codec\<close>

lemma length_le_bytes: "length (le_bytes n w) = n"
  by (induction n arbitrary: w) simp_all

lemma length_pack_d: "length (pack_d x) = 8"
  by (simp add: pack_d_def length_le_bytes)

text \<open>One byte split off at the low end and put back.\<close>

lemma byte_step:
  "(ucast (ucast (w :: double) :: byte) :: double) OR push_bit 8 (take_bit m (drop_bit 8 w))
     = take_bit (8 + m) w"
proof (rule bit_word_eqI)
  fix k :: nat
  assume k: "k < LENGTH(64)"
  show "bit ((ucast (ucast w :: byte) :: double) OR push_bit 8 (take_bit m (drop_bit 8 w))) k
        \<longleftrightarrow> bit (take_bit (8 + m) w) k"
  proof (cases "k < 8")
    case True
    then show ?thesis
      by (simp add: bit_or_iff bit_ucast_iff bit_push_bit_iff bit_take_bit_iff)
  next
    case False
    then have "8 + (k - 8) = k" and "k - 8 < m \<longleftrightarrow> k < 8 + m" by arith+
    with False k show ?thesis
      by (simp add: bit_or_iff bit_ucast_iff bit_push_bit_iff bit_take_bit_iff bit_drop_bit_eq)
  qed
qed

lemma of_le_bytes_le_bytes: "of_le_bytes (le_bytes n w) = take_bit (8 * n) w"
proof (induction n arbitrary: w)
  case 0
  show ?case by simp
next
  case (Suc n)
  show ?case using byte_step [of w "8 * n"] by (simp add: Suc)
qed

lemma unpack_pack_d: "unpack_d (pack_d x) = Inr x"
  using take_bit_length_eq [of x]
  by (simp add: unpack_d_def length_pack_d) (simp add: pack_d_def of_le_bytes_le_bytes)

lemma stream_recv_pack_d: "stream_recv (pack_d x @ rest) = Bytes (pack_d x) # stream_recv rest"
proof -
  have "pack_d x @ rest \<noteq> []" using length_pack_d [of x] by auto
  then show ?thesis
    by (subst stream_recv.simps) (simp add: length_pack_d)
qed

text \<open>Any number of values written back to back is read back unchanged.\<close>

lemma recv_floats_stream:
  "recv_floats (length xs) (stream_recv (concat (map pack_d xs) @ rest)) = Inr xs"
proof (induction xs)
  case Nil
  show ?case by simp
next
  case (Cons x xs)
  then show ?case
    by (simp add: stream_recv_pack_d length_pack_d unpack_pack_d and_then_def)
qed

lemma send_data_all_sent:
  "send_data [] t =
     Inr (pack_d (MIO_Distance t) @ pack_d (MIO_Velocity t) @ pack_d (Ego_Velocity t), [Log_send])"
  by (simp add: send_data_def)

text \<open>
  Claim C9. Round trip of the telemetry codec: for every telemetry frame, \<open>send_data\<close>
  writes the three fields as consecutive 8-byte values in the order distance, lead velocity,
  ego velocity, and reading these bytes back eight at a time with the inbound rule of
  \<open>receive_data\<close> (\<open>recv(8)\<close>, length check, \<open>struct.unpack('d', ...)\<close>) gives the three
  original bit patterns.
\<close>

theorem telemetry_round_trip:
  "send_data [] t =
     Inr (pack_d (MIO_Distance t) @ pack_d (MIO_Velocity t) @ pack_d (Ego_Velocity t), [Log_send]) \<and>
   recv_floats 3
     (stream_recv (pack_d (MIO_Distance t) @ pack_d (MIO_Velocity t) @ pack_d (Ego_Velocity t)))
     = Inr [MIO_Distance t, MIO_Velocity t, Ego_Velocity t]"
  using recv_floats_stream [of "[MIO_Distance t, MIO_Velocity t, Ego_Velocity t]" "[]"]
  by (simp add: send_data_all_sent numeral_3_eq_3)

section \<open>Sending and receiving never raise\<close>

lemma send_data_never_raises: "\<exists>out msgs. send_data rs t = Inr (out, msgs)"
  by (cases "sendall_keys rs
      [pack_d (MIO_Distance t), pack_d (MIO_Velocity t), pack_d (Ego_Velocity t)] []")
     (auto simp: send_data_def split: sum.splits)

lemma receive_data_never_raises: "\<exists>sd msgs. receive_data rs = Inr (sd, msgs)"
  by (auto simp: receive_data_def split: sum.splits exn.splits)

lemma receive_data_failure:
  "recv_floats 5 rs = Inl e \<Longrightarrow>
   receive_data rs = Inr (default_sim_data, if e = SocketTimeout then [] else [Log_recv_error e])"
  by (cases e) (simp_all add: receive_data_def and_then_def)

text \<open>After complete packets, the loop fails the way the next read fails.\<close>

lemma recv_floats_first_failure:
  "recv_floats (Suc 0) rs = Inl e \<Longrightarrow> recv_floats (Suc k) rs = Inl e"
proof (cases rs)
  case Nil
  then show "recv_floats (Suc 0) rs = Inl e \<Longrightarrow> recv_floats (Suc k) rs = Inl e" by simp
next
  case (Cons r rs')
  then show "recv_floats (Suc 0) rs = Inl e \<Longrightarrow> recv_floats (Suc k) rs = Inl e"
    by (cases r) (auto simp: and_then_def split: if_splits sum.splits)
qed

lemma recv_floats_after_full:
  "length full < n \<Longrightarrow> \<forall>p \<in> set full. length p = 8 \<Longrightarrow> recv_floats (Suc 0) rs = Inl e \<Longrightarrow>
   recv_floats n (map Bytes full @ rs) = Inl e"
proof (induction full arbitrary: n)
  case Nil
  then obtain k where n: "n = Suc k" by (cases n) auto
  from Nil.prems(3) have "recv_floats (Suc k) rs = Inl e"
    by (rule recv_floats_first_failure)
  with n show ?case by simp
next
  case (Cons p full)
  then obtain k where n: "n = Suc k" by (cases n) auto
  with Cons.prems have "length full < k" "\<forall>p \<in> set full. length p = 8" "length p = 8" by auto
  with Cons.IH [of k] Cons.prems(3) n show ?case
    by (simp add: and_then_def unpack_d_def)
qed

text \<open>
  Claim C8, as stated, fails: a packet of seven bytes makes \<open>receive_data\<close> raise
  \<open>ValueError\<close> inside its own \<open>try\<close>, print it, and return the default frame, the
  frame it also returns on a timeout. The caller gets a frame, not an error.
\<close>

theorem short_packet_yields_frame:
  "receive_data [Bytes [0, 0, 0, 0, 0, 0, 0]] = Inr (default_sim_data, [Log_recv_error ValueError]) \<and>
   receive_data [Recv_raises SocketTimeout] = Inr (default_sim_data, [])"
  by (simp add: receive_data_def and_then_def eval_nat_numeral)

text \<open>
  Claim C8, amended. For every receive attempt in which fewer than five complete 8-byte
  packets arrive (some complete packets, then a packet of fewer than eight bytes, a timeout,
  or nothing more), \<open>receive_data\<close> returns the default frame: after a short packet the
  incompleteness is detected and printed as an error, after a timeout nothing is printed, and
  in both cases the value returned is the same default frame.
\<close>

theorem incomplete_frame_default:
  assumes "length full < 5" and "\<forall>p \<in> set full. length p = 8"
  shows "(length short < 8 \<longrightarrow>
            receive_data (map Bytes full @ Bytes short # rest)
              = Inr (default_sim_data, [Log_recv_error ValueError])) \<and>
         receive_data (map Bytes full @ Recv_raises SocketTimeout # rest)
           = Inr (default_sim_data, []) \<and>
         receive_data (map Bytes full) = Inr (default_sim_data, [])"
proof -
  have a: "recv_floats 5 (map Bytes full @ Bytes short # rest) = Inl ValueError"
    if "length short < 8"
    using that by (intro recv_floats_after_full assms) simp
  have b: "recv_floats 5 (map Bytes full @ Recv_raises SocketTimeout # rest) = Inl SocketTimeout"
    by (intro recv_floats_after_full assms) simp
  have c: "recv_floats 5 (map Bytes full @ []) = Inl SocketTimeout"
    by (intro recv_floats_after_full assms) simp
  show ?thesis
    using receive_data_failure [OF b] receive_data_failure [OF c]
    by (auto dest!: a receive_data_failure)
qed

theorem incomplete_frame_default_witness:
  "length [pack_d 0, pack_d 0] < 5 \<and> length [1, 2, 3 :: byte] < 8 \<and>
   receive_data (map Bytes [pack_d 0, pack_d 0] @ Bytes [1, 2, 3] # [])
     = Inr (default_sim_data, [Log_recv_error ValueError]) \<and>
   receive_data (map Bytes [pack_d 0, pack_d 0] @ Recv_raises SocketTimeout # [])
     = Inr (default_sim_data, [])"
  using incomplete_frame_default [of "[pack_d 0, pack_d 0]" "[1, 2, 3]" "[]"]
  by (simp add: length_pack_d)

section \<open>One tick\<close>

lemma tcp_exchange_ok:
  "receive_data (recv_results inp) = Inr (sd, m2) \<Longrightarrow>
   \<exists>bytes m1. tcp_exchange inp = (True, sd, bytes, m1 @ m2)"
  using send_data_never_raises [of "sendall_results inp"
      "\<lparr>MIO_Distance = distance inp, MIO_Velocity = cyclist_speed inp, Ego_Velocity = ego_speed inp\<rparr>"]
  by (auto simp: tcp_exchange_def and_then_def)

text \<open>The \<open>except Exception\<close> clause around the exchange in \<open>main\<close> is never entered.\<close>

lemma tcp_exchange_never_fails: "\<exists>sd bytes msgs. tcp_exchange inp = (True, sd, bytes, msgs)"
  using receive_data_never_raises [of "recv_results inp"] tcp_exchange_ok [of inp] by blast

lemma step_connected:
  assumes "tcp_active s" and "conn s" and "receive_data (recv_results inp) = Inr (sd, m2)"
  shows "\<exists>out. step s inp =
           Inr (s\<lparr>sim_time := sim_time s + 5 / 100,
                  collision := collision s \<or> float_lt (valof (distance inp)) (Finite (25 / 10))\<rparr>, out)
           \<and> frame out = sd
           \<and> ctrl out = control_ego (sim_time s + 5 / 100) sd (collision s)"
proof -
  obtain v where v: "calculate_ttc (valof (distance inp))
      (float_sub (valof (ego_speed inp)) (valof (cyclist_speed inp))) = Inr v"
    using calculate_ttc_total by blast
  obtain bytes m1 where x: "tcp_exchange inp = (True, sd, bytes, m1 @ m2)"
    using tcp_exchange_ok [OF assms(3)] by blast
  show ?thesis
    using assms(1,2) by (auto simp: step_def Let_def and_then_def v x)
qed

lemma step_degraded:
  assumes "\<not> (tcp_active s \<and> conn s)"
    and "local_aeb (valof (distance inp))
           (float_sub (valof (ego_speed inp)) (valof (cyclist_speed inp))) = Inr sd"
  shows "\<exists>out. step s inp =
           Inr (s\<lparr>sim_time := sim_time s + 5 / 100,
                  collision := collision s \<or> float_lt (valof (distance inp)) (Finite (25 / 10))\<rparr>, out)
           \<and> frame out = sd
           \<and> ctrl out = control_ego (sim_time s + 5 / 100) sd (collision s)"
proof -
  obtain v where v: "calculate_ttc (valof (distance inp))
      (float_sub (valof (ego_speed inp)) (valof (cyclist_speed inp))) = Inr v"
    using calculate_ttc_total by blast
  show ?thesis
    using assms by (auto simp: step_def Let_def and_then_def v)
qed

lemma step_collision:
  "step s inp = Inr (s', out) \<Longrightarrow>
   collision s' = (collision s \<or> float_lt (valof (distance inp)) (Finite (25 / 10)))"
  by (auto simp: step_def Let_def and_then_def split: sum.splits prod.splits if_splits)

text \<open>No tick changes \<open>tcp_active\<close>: the only assignment to it in the loop is unreachable.\<close>

lemma step_link:
  "step s inp = Inr (s', out) \<Longrightarrow> tcp_active s' = tcp_active s \<and> conn s' = conn s"
  using tcp_exchange_never_fails [of inp]
  by (auto simp: step_def Let_def and_then_def split: sum.splits prod.splits if_splits)

lemma main_loop_link:
  "j < length (main_loop s inps) \<Longrightarrow>
   tcp_active (fst (main_loop s inps ! j)) = tcp_active s \<and> conn (fst (main_loop s inps ! j)) = conn s"
proof (induction inps arbitrary: s j)
  case Nil
  then show ?case by simp
next
  case (Cons inp inps)
  show ?case
  proof (cases "step s inp")
    case (Inl e)
    with Cons.prems show ?thesis by (simp split: if_splits)
  next
    case (Inr r)
    obtain s' out where r: "r = (s', out)" by (cases r)
    with Inr Cons.prems have ml: "main_loop s (inp # inps) = (s', out) # main_loop s' inps"
      by (simp split: if_splits)
    from Inr r have l: "tcp_active s' = tcp_active s \<and> conn s' = conn s" using step_link by blast
    show ?thesis
    proof (cases j)
      case 0
      with ml l show ?thesis by simp
    next
      case (Suc j')
      with Cons.prems ml have "j' < length (main_loop s' inps)" by simp
      from Cons.IH [OF this] ml Suc l show ?thesis by simp
    qed
  qed
qed

subsection \<open>Some doubles\<close>

lemma valof_0: "valof 0 = Finite 0"
  by (simp add: valof_def Let_def)

lemma valof_2: "valof 0x4000000000000000 = Finite 2"
  by (simp add: valof_def Let_def)

lemma valof_2375: "valof 0x4003000000000000 = Finite (19 / 8)"
  by (simp add: valof_def Let_def)

lemma valof_6: "valof 0x4018000000000000 = Finite 6"
  by (simp add: valof_def Let_def)

lemma valof_50: "valof 0x4049000000000000 = Finite 50"
  by (simp add: valof_def Let_def)

subsection \<open>A receive that times out\<close>

text \<open>
  Claim C6. For every tick on the connection in which the first \<open>recv\<close> times out with no
  data, \<open>receive_data\<close> returns the default frame (all boolean fields false, deceleration
  0.0), the tick completes with the control computed from that frame, the connection stays
  in use, and the loop goes on to the next tick.
\<close>

theorem receive_timeout_tick:
  assumes "tcp_active s" and "conn s"
    and "first_recv (recv_results inp) = Recv_raises SocketTimeout"
  shows "receive_data (recv_results inp) = Inr (default_sim_data, []) \<and>
         default_sim_data = \<lparr>egoCarStop = False, FCW_Activate = False, Deceleration = Finite 0,
                             AEB_Status = False, Emergency_Brake = False\<rparr> \<and>
         (\<exists>s' out. step s inp = Inr (s', out) \<and> frame out = default_sim_data \<and>
            ctrl out = control_ego (sim_time s + 5 / 100) default_sim_data (collision s) \<and>
            tcp_active s' \<and>
            (\<not> quit inp \<longrightarrow> main_loop s (inp # inps) = (s', out) # main_loop s' inps))"
proof -
  have "recv_floats 5 (recv_results inp) = Inl SocketTimeout"
    using assms(3)
    by (cases "recv_results inp") (auto simp: first_recv_def eval_nat_numeral)
  then have r: "receive_data (recv_results inp) = Inr (default_sim_data, [])"
    by (simp add: receive_data_failure)
  from step_connected [OF assms(1,2) r] obtain out where
    "step s inp = Inr (s\<lparr>sim_time := sim_time s + 5 / 100,
        collision := collision s \<or> float_lt (valof (distance inp)) (Finite (25 / 10))\<rparr>, out)"
    "frame out = default_sim_data"
    "ctrl out = control_ego (sim_time s + 5 / 100) default_sim_data (collision s)" by blast
  with assms(1) r show ?thesis by (auto simp: default_sim_data_def)
qed

theorem receive_timeout_tick_witness:
  "first_recv [Recv_raises SocketTimeout] = Recv_raises SocketTimeout \<and>
   (\<exists>s' out.
     step \<lparr>sim_time = 3, collision = False, tcp_active = True, conn = True\<rparr>
          \<lparr>quit = False, distance = 0x4049000000000000, ego_speed = 0x4000000000000000,
           cyclist_speed = 0, sendall_results = [], recv_results = [Recv_raises SocketTimeout]\<rparr>
       = Inr (s', out)
     \<and> frame out = default_sim_data \<and> tcp_active s'
     \<and> main_loop \<lparr>sim_time = 3, collision = False, tcp_active = True, conn = True\<rparr>
          [\<lparr>quit = False, distance = 0x4049000000000000, ego_speed = 0x4000000000000000,
            cyclist_speed = 0, sendall_results = [], recv_results = [Recv_raises SocketTimeout]\<rparr>]
        = [(s', out)])"
  using receive_timeout_tick
    [of "\<lparr>sim_time = 3, collision = False, tcp_active = True, conn = True\<rparr>"
        "\<lparr>quit = False, distance = 0x4049000000000000, ego_speed = 0x4000000000000000,
          cyclist_speed = 0, sendall_results = [], recv_results = [Recv_raises SocketTimeout]\<rparr>"
        "[]"]
  by (auto simp: first_recv_def)

subsection \<open>The local decision\<close>

lemma local_aeb_close:
  assumes "d < 15" and "0 < rv" and "0 < d"
  shows "local_aeb (Finite d) (Finite rv) =
           Inr (if d < 8
                then default_sim_data\<lparr>AEB_Status := True, Emergency_Brake := True,
                                       Deceleration := Finite (8 / 10)\<rparr>
                else default_sim_data\<lparr>AEB_Status := True\<rparr>)"
proof (cases "d < 8")
  case True
  with assms have "8 / 10 < 15 / d" by (simp add: field_simps)
  with True assms show ?thesis
    by (simp add: local_aeb_def Let_def float_gt_def and_then_def py_min_def)
next
  case False
  with assms show ?thesis
    by (simp add: local_aeb_def Let_def float_gt_def)
qed

text \<open>
  Claim C1, as stated, fails at distance 0.0: with the connection not in use, a distance of
  0.0 and a relative velocity of 2.0, the division \<open>15.0 / distance\<close> raises
  \<open>ZeroDivisionError\<close>; no frame is produced and the exception leaves the loop.
\<close>

theorem degraded_tick_zero_distance:
  "valof (distance \<lparr>quit = False, distance = 0, ego_speed = 0x4000000000000000,
           cyclist_speed = 0, sendall_results = [], recv_results = []\<rparr>) = Finite 0 \<and>
   step \<lparr>sim_time = 59 / 20, collision = False, tcp_active = False, conn = False\<rparr>
        \<lparr>quit = False, distance = 0, ego_speed = 0x4000000000000000,
         cyclist_speed = 0, sendall_results = [], recv_results = []\<rparr> = Inl ZeroDivisionError"
  by (simp add: step_def Let_def valof_0 valof_2 calculate_ttc_def float_le_def and_then_def
      local_aeb_def float_gt_def)

text \<open>
  Claim C1, amended. For every tick evaluated with the connection not in use and a positive
  distance: if the distance is below 15 and the relative velocity is positive, the tick
  completes and the synthesized frame has \<open>AEB_Status\<close> true; if the distance is also
  below 8, the frame has \<open>Emergency_Brake\<close> true and
  \<open>Deceleration = min(0.8, 8 / distance)\<close>, which is 0.8. At distance 6 and relative
  velocity 2 both flags are true and the deceleration is 0.8.
\<close>

theorem degraded_tick_local_aeb:
  assumes "\<not> (tcp_active s \<and> conn s)"
    and "valof (distance inp) = Finite d"
    and "valof (ego_speed inp) = Finite e" and "valof (cyclist_speed inp) = Finite c"
    and "d < 15" and "0 < e - c" and "0 < d"
  shows "\<exists>s' out. step s inp = Inr (s', out) \<and> AEB_Status (frame out) \<and>
           (d < 8 \<longrightarrow> Emergency_Brake (frame out) \<and>
                      Deceleration (frame out) = Finite (min (8 / 10) (8 / d)) \<and>
                      Deceleration (frame out) = Finite (8 / 10))"
proof -
  let ?sd = "if d < 8
             then default_sim_data\<lparr>AEB_Status := True, Emergency_Brake := True,
                                    Deceleration := Finite (8 / 10)\<rparr>
             else default_sim_data\<lparr>AEB_Status := True\<rparr>"
  have "local_aeb (valof (distance inp))
          (float_sub (valof (ego_speed inp)) (valof (cyclist_speed inp))) = Inr ?sd"
    using assms local_aeb_close [of d "e - c"] by simp
  from step_degraded [OF assms(1) this] obtain s' out
    where so: "step s inp = Inr (s', out)" "frame out = ?sd" by blast
  have "d < 8 \<Longrightarrow> min (8 / 10) (8 / d) = 8 / 10"
    using assms(7) by (simp add: min_def field_simps)
  with so show ?thesis by auto
qed

theorem degraded_tick_local_aeb_witness:
  "valof 0x4018000000000000 = Finite 6 \<and> valof 0x4000000000000000 = Finite 2 \<and>
   (\<exists>s' out.
     step \<lparr>sim_time = 59 / 20, collision = False, tcp_active = False, conn = False\<rparr>
          \<lparr>quit = False, distance = 0x4018000000000000, ego_speed = 0x4000000000000000,
           cyclist_speed = 0, sendall_results = [], recv_results = []\<rparr> = Inr (s', out)
     \<and> AEB_Status (frame out) \<and> Emergency_Brake (frame out)
     \<and> Deceleration (frame out) = Finite (8 / 10))"
  using degraded_tick_local_aeb
    [of "\<lparr>sim_time = 59 / 20, collision = False, tcp_active = False, conn = False\<rparr>"
        "\<lparr>quit = False, distance = 0x4018000000000000, ego_speed = 0x4000000000000000,
          cyclist_speed = 0, sendall_results = [], recv_results = []\<rparr>" 6 2 0]
  by (simp add: valof_0 valof_2 valof_6)

subsection \<open>An I/O error on the connection\<close>

text \<open>
  Claim C2 says that on a tick that uses the connection, a send or receive I/O error other
  than a timeout sets \<open>tcp_active\<close> to false for the rest of the run, so that later
  ticks decide locally; the \<open>except Exception\<close> clause of \<open>main\<close> is written to do
  so. The code does not: in a tick in which \<open>sendall\<close> and \<open>recv\<close> both raise
  \<open>OSError\<close>, both exceptions are caught and printed inside \<open>send_data\<close> and
  \<open>receive_data\<close>, \<open>tcp_active\<close> is still true after the tick, and the frame used
  is the default frame, where the local decision at this distance (6) and relative velocity
  (2) is an emergency brake.
\<close>

theorem io_error_keeps_link:
  "step \<lparr>sim_time = 3, collision = False, tcp_active = True, conn = True\<rparr>
        \<lparr>quit = False, distance = 0x4018000000000000, ego_speed = 0x4000000000000000,
         cyclist_speed = 0, sendall_results = [Some OSError], recv_results = [Recv_raises OSError]\<rparr>
     = Inr (\<lparr>sim_time = 61 / 20, collision = False, tcp_active = True, conn = True\<rparr>,
            \<lparr>ctrl = \<lparr>throttle = Finite (6 / 10), steer = Finite 0, brake = Finite 0\<rparr>,
             frame = default_sim_data, ttc = Finite 3, written = [],
             printed = [Log_send_error OSError, Log_recv_error OSError]\<rparr>) \<and>
   local_aeb (Finite 6) (Finite 2)
     = Inr (default_sim_data\<lparr>AEB_Status := True, Emergency_Brake := True,
                              Deceleration := Finite (8 / 10)\<rparr>)"
  by (simp add: step_def Let_def valof_0 valof_2 valof_6 calculate_ttc_def float_le_def
      and_then_def tcp_exchange_def send_data_def receive_data_def eval_nat_numeral
      control_ego_def default_sim_data_def py_min_def py_max_def float_gt_def local_aeb_def)

section \<open>The collision flag\<close>

text \<open>
  Claim C5. The collision flag is a sticky latch: in every run, whatever the state of the
  connection, once the flag is set or a tick k has read a distance below 2.5, the flag is
  set in the state after every completed tick j from k on, whatever distances are read
  later.
\<close>

theorem collision_latch:
  assumes "j < length (main_loop s inps)"
    and "collision s \<or> (\<exists>k\<le>j. float_lt (valof (distance (inps ! k))) (Finite (25 / 10)))"
  shows "collision (fst (main_loop s inps ! j))"
  using assms
proof (induction inps arbitrary: s j)
  case Nil
  then show ?case by simp
next
  case (Cons inp inps)
  show ?case
  proof (cases "step s inp")
    case (Inl e)
    with Cons.prems(1) show ?thesis by (simp split: if_splits)
  next
    case (Inr r)
    obtain s' out where r: "r = (s', out)" by (cases r)
    with Inr Cons.prems(1) have ml: "main_loop s (inp # inps) = (s', out) # main_loop s' inps"
      by (simp split: if_splits)
    from Inr r have c: "collision s' = (collision s \<or> float_lt (valof (distance inp)) (Finite (25 / 10)))"
      using step_collision by blast
    show ?thesis
    proof (cases j)
      case 0
      with Cons.prems(2) c ml show ?thesis by auto
    next
      case (Suc j')
      with Cons.prems(1) ml have len: "j' < length (main_loop s' inps)" by simp
      have "collision s' \<or> (\<exists>k\<le>j'. float_lt (valof (distance (inps ! k))) (Finite (25 / 10)))"
      proof (cases "collision s'")
        case True
        then show ?thesis by simp
      next
        case False
        with c have nd: "\<not> float_lt (valof (distance inp)) (Finite (25 / 10))"
          and nc: "\<not> collision s" by auto
        with Cons.prems(2) obtain k where k: "k \<le> j"
          "float_lt (valof (distance ((inp # inps) ! k))) (Finite (25 / 10))" by auto
        with nd obtain k' where "k = Suc k'" by (cases k) auto
        with k Suc show ?thesis by auto
      qed
      from Cons.IH [OF len this] ml Suc show ?thesis by simp
    qed
  qed
qed

theorem collision_latch_witness:
  "(1::nat) < length (main_loop (initial_state False)
      [\<lparr>quit = False, distance = 0x4003000000000000, ego_speed = 0, cyclist_speed = 0,
        sendall_results = [], recv_results = []\<rparr>,
       \<lparr>quit = False, distance = 0x4049000000000000, ego_speed = 0, cyclist_speed = 0,
        sendall_results = [], recv_results = []\<rparr>]) \<and>
   float_lt (valof 0x4003000000000000) (Finite (25 / 10)) \<and>
   \<not> float_lt (valof 0x4049000000000000) (Finite (25 / 10)) \<and>
   collision (fst (main_loop (initial_state False)
      [\<lparr>quit = False, distance = 0x4003000000000000, ego_speed = 0, cyclist_speed = 0,
        sendall_results = [], recv_results = []\<rparr>,
       \<lparr>quit = False, distance = 0x4049000000000000, ego_speed = 0, cyclist_speed = 0,
        sendall_results = [], recv_results = []\<rparr>] ! 1))"
proof -
  let ?inps = "[\<lparr>quit = False, distance = 0x4003000000000000, ego_speed = 0, cyclist_speed = 0,
        sendall_results = [], recv_results = []\<rparr>,
       \<lparr>quit = False, distance = 0x4049000000000000, ego_speed = 0, cyclist_speed = 0,
        sendall_results = [], recv_results = []\<rparr>]"
  have len: "(1::nat) < length (main_loop (initial_state False) ?inps)"
    by (simp add: initial_state_def step_def Let_def valof_0 valof_2375 valof_50 calculate_ttc_def
        float_le_def and_then_def local_aeb_def float_gt_def)
  have near: "float_lt (valof 0x4003000000000000) (Finite (25 / 10))"
    by (simp add: valof_2375)
  have far: "\<not> float_lt (valof 0x4049000000000000) (Finite (25 / 10))"
    by (simp add: valof_50)
  have "collision (initial_state False) \<or>
        (\<exists>k\<le>1. float_lt (valof (distance (?inps ! k))) (Finite (25 / 10)))"
    using near by (intro disjI2 exI [of _ 0]) simp
  from collision_latch [OF len this] len near far show ?thesis by simp
qed

end
